theory Spec2Isabelle
  imports Complex_Main "HOL-Library.Log_Nat"
begin

section \<open>Reports page: report builders, CSV serializer and export\<close>

text \<open>
  A shallow embedding of \<^verbatim>\<open>src/pages/Reports.tsx\<close>. The component holds two arrays in
  React state (\<^verbatim>\<open>products\<close>, \<^verbatim>\<open>transactions\<close>); four closures build report rows from
  them and hand the rows to \<^verbatim>\<open>downloadCSV\<close>, which either raises the "no data" toast or
  joins the rows into CSV text, triggers a download and raises the success toast.
\<close>

subsection \<open>Numbers\<close>

text \<open>
  A JavaScript \<^verbatim>\<open>number\<close> is an IEEE-754 double: a finite value, one of the two infinities
  or NaN. A finite double is carried by the rational it denotes. The two zeros are one value
  here: the page only compares, adds, subtracts, multiplies and prints numbers, and none of
  these tells the zeros apart.
\<close>

datatype number = Fin rat | PosInf | NegInf | NaN

definition pow2 :: "int \<Rightarrow> rat" where
  "pow2 e = (if 0 \<le> e then of_int (2 ^ nat e) else 1 / of_int (2 ^ nat (- e)))"

definition pow10 :: "int \<Rightarrow> rat" where
  "pow10 e = (if 0 \<le> e then of_int (10 ^ nat e) else 1 / of_int (10 ^ nat (- e)))"

text \<open>For \<open>a > 0\<close>, the exponent \<open>b\<close> with \<open>2^b \<le> a < 2^(b + 1)\<close>.\<close>

definition binary_exponent :: "rat \<Rightarrow> int" where
  "binary_exponent a =
     (let (p, q) = quotient_of a; d = bitlen p - bitlen q
      in if pow2 d \<le> a then d else d - 1)"

text \<open>Rounding to the nearest integer, to the even one on a tie.\<close>

definition round_even :: "rat \<Rightarrow> int" where
  "round_even y =
     (let f = \<lfloor>y\<rfloor>; d = y - of_int f
      in if d < 1 / 2 then f else if 1 / 2 < d then f + 1 else if even f then f else f + 1)"

text \<open>
  The exponent of the last bit of the 53-bit significand; below \<open>2^-1022\<close> the doubles are
  the multiples of \<open>2^-1074\<close>.
\<close>

definition ulp_exponent :: "rat \<Rightarrow> int" where
  "ulp_exponent a = max (binary_exponent a) (- 1022) - 52"

text \<open>
  The double that a real result is rounded to (round to nearest, ties to even): the
  magnitude is rounded at its last significand bit, and a result that rounds to \<open>2^1024\<close>
  or beyond is an infinity.
\<close>

definition nearest :: "rat \<Rightarrow> int \<Rightarrow> rat" where
  "nearest a e = of_int (round_even (a / pow2 e)) * pow2 e"

definition finite_or_infinite :: "bool \<Rightarrow> rat \<Rightarrow> number" where
  "finite_or_infinite negative r =
     (if pow2 1024 \<le> r then (if negative then NegInf else PosInf)
      else Fin (if negative then - r else r))"

definition fround :: "rat \<Rightarrow> number" where
  "fround x =
     (if x = 0 then Fin 0
      else finite_or_infinite (x < 0) (nearest \<bar>x\<bar> (ulp_exponent \<bar>x\<bar>)))"

text \<open>The rationals that are doubles.\<close>

definition of_double :: "rat \<Rightarrow> bool" where
  "of_double x = (fround x = Fin x)"

text \<open>
  The operators of the page on numbers: \<^verbatim>\<open>+\<close>, \<^verbatim>\<open>-\<close>, \<^verbatim>\<open>*\<close>, \<^verbatim>\<open><=\<close> and \<^verbatim>\<open><\<close>, with the
  IEEE-754 cases for the infinities and NaN.
\<close>

instantiation number :: "{zero, uminus, plus, minus, times, ord}"
begin

definition zero_number :: number where
  "0 = Fin 0"

fun uminus_number :: "number \<Rightarrow> number" where
  "- Fin x = Fin (- x)"
| "- PosInf = NegInf"
| "- NegInf = PosInf"
| "- NaN = NaN"

fun plus_number :: "number \<Rightarrow> number \<Rightarrow> number" where
  "Fin x + Fin y = fround (x + y)"
| "NaN + _ = NaN"
| "_ + NaN = NaN"
| "PosInf + NegInf = NaN"
| "NegInf + PosInf = NaN"
| "PosInf + _ = PosInf"
| "NegInf + _ = NegInf"
| "_ + PosInf = PosInf"
| "_ + NegInf = NegInf"

definition minus_number :: "number \<Rightarrow> number \<Rightarrow> number" where
  "x - y = x + (- y)" for x y :: number

fun times_number :: "number \<Rightarrow> number \<Rightarrow> number" where
  "Fin x * Fin y = fround (x * y)"
| "NaN * _ = NaN"
| "_ * NaN = NaN"
| "Fin x * PosInf = (if x = 0 then NaN else if 0 < x then PosInf else NegInf)"
| "Fin x * NegInf = (if x = 0 then NaN else if 0 < x then NegInf else PosInf)"
| "PosInf * Fin y = (if y = 0 then NaN else if 0 < y then PosInf else NegInf)"
| "NegInf * Fin y = (if y = 0 then NaN else if 0 < y then NegInf else PosInf)"
| "PosInf * PosInf = PosInf"
| "PosInf * NegInf = NegInf"
| "NegInf * PosInf = NegInf"
| "NegInf * NegInf = PosInf"

fun less_eq_number :: "number \<Rightarrow> number \<Rightarrow> bool" where
  "Fin x \<le> Fin y = (x \<le> y)"
| "NaN \<le> _ = False"
| "_ \<le> NaN = False"
| "NegInf \<le> _ = True"
| "_ \<le> PosInf = True"
| "_ \<le> NegInf = False"
| "PosInf \<le> _ = False"

fun less_number :: "number \<Rightarrow> number \<Rightarrow> bool" where
  "Fin x < Fin y = (x < y)"
| "NaN < _ = False"
| "_ < NaN = False"
| "PosInf < _ = False"
| "_ < NegInf = False"
| "NegInf < _ = True"
| "_ < PosInf = True"

instance ..

end

subsection \<open>Numbers as text\<close>

definition digit_char :: "nat \<Rightarrow> char" where
  "digit_char d = ''0123456789'' ! d"

text \<open>The decimal digits of a non-negative integer, without leading zeros.\<close>

function digits :: "int \<Rightarrow> string" where
  "digits n =
     (if n < 10 then [digit_char (nat n)]
      else digits (n div 10) @ [digit_char (nat (n mod 10))])"
  by pat_completeness auto
termination
  by (relation "measure nat") auto

declare digits.simps [simp del]

definition strip_zeros :: "string \<Rightarrow> string" where
  "strip_zeros s = rev (dropWhile (\<lambda>c. c = CHR ''0'') (rev s))"

text \<open>For \<open>x > 0\<close>, the exponent \<open>n\<close> with \<open>10^(n - 1) \<le> x < 10^n\<close>.\<close>

definition decimal_exponent :: "rat \<Rightarrow> int" where
  "decimal_exponent x =
     (let (p, q) = quotient_of x;
          d = int (length (digits p)) - int (length (digits q))
      in if pow10 d \<le> x then d + 1 else d)"

text \<open>
  \<^verbatim>\<open>Number::toString\<close> (ECMAScript 6.1.6.1.20) looks for integers \<open>n\<close>, \<open>k\<close>, \<open>s\<close> such that
  \<open>s\<close> has \<open>k\<close> digits, \<open>s * 10^(n - k)\<close> rounds to the number, and \<open>k\<close> is as small as
  possible. Rounding is monotone, so for each \<open>k\<close> only the two \<open>k\<close>-digit decimals next to
  the number need trying; when both round to it the nearer one is taken, as the engines do.
  Seventeen digits always suffice for a double.
\<close>

definition nearer :: "rat \<Rightarrow> rat \<Rightarrow> int \<Rightarrow> bool \<Rightarrow> bool \<Rightarrow> int option" where
  "nearer x u lo lo_fits hi_fits =
     (if lo_fits \<and> hi_fits
      then Some (if x - of_int lo * u \<le> of_int (lo + 1) * u - x then lo else lo + 1)
      else if lo_fits then Some lo
      else if hi_fits then Some (lo + 1)
      else None)"

definition neighbours :: "rat \<Rightarrow> rat \<Rightarrow> int \<Rightarrow> int option" where
  "neighbours x u lo =
     nearer x u lo (fround (of_int lo * u) = Fin x) (fround (of_int (lo + 1) * u) = Fin x)"

text \<open>The digits \<open>s\<close> for a unit \<open>u = 10^(n - k)\<close>, if \<open>k\<close> digits can do.\<close>

definition candidate :: "rat \<Rightarrow> rat \<Rightarrow> int option" where
  "candidate x u = neighbours x u \<lfloor>x / u\<rfloor>"

fun shortest :: "rat \<Rightarrow> int \<Rightarrow> nat list \<Rightarrow> int \<times> nat" where
  "shortest x n [] = (\<lfloor>x / pow10 (n - 17) + 1 / 2\<rfloor>, 17)"
| "shortest x n (k # ks) =
     (case candidate x (pow10 (n - int k)) of
        Some s \<Rightarrow> (s, k)
      | None \<Rightarrow> shortest x n ks)"

text \<open>The text for the digit string \<open>s\<close> and the exponent \<open>n\<close>, by the four cases.\<close>

definition decimal_text :: "string \<Rightarrow> int \<Rightarrow> string" where
  "decimal_text s n =
     (if int (length s) \<le> n \<and> n \<le> 21 then s @ replicate (nat (n - int (length s))) CHR ''0''
      else if 0 < n \<and> n \<le> 21 then take (nat n) s @ ''.'' @ drop (nat n) s
      else if - 6 < n \<and> n \<le> 0 then ''0.'' @ replicate (nat (- n)) CHR ''0'' @ s
      else (if length s = 1 then s else take 1 s @ ''.'' @ drop 1 s)
           @ ''e'' @ (if n - 1 < 0 then ''-'' else ''+'') @ digits \<bar>n - 1\<bar>)"

text \<open>
  Trailing zeros are dropped from the digits found, and a carry into a new leading digit
  moves the exponent.
\<close>

definition normalised :: "int \<Rightarrow> nat \<Rightarrow> string \<Rightarrow> string" where
  "normalised n0 k0 ds = decimal_text (strip_zeros ds) (n0 + (int (length ds) - int k0))"

definition shortest_text :: "rat \<Rightarrow> int \<Rightarrow> string" where
  "shortest_text x n0 = (case shortest x n0 [1..<18] of (s0, k0) \<Rightarrow> normalised n0 k0 (digits s0))"

definition toString_pos :: "rat \<Rightarrow> string" where
  "toString_pos x = shortest_text x (decimal_exponent x)"

fun Number_toString :: "number \<Rightarrow> string" where
  "Number_toString NaN = ''NaN''"
| "Number_toString PosInf = ''Infinity''"
| "Number_toString NegInf = ''-Infinity''"
| "Number_toString (Fin x) =
     (if x = 0 then ''0'' else if x < 0 then ''-'' @ toString_pos (- x) else toString_pos x)"

text \<open>
  \<^verbatim>\<open>Number.prototype.toFixed(f)\<close> (ECMAScript 21.1.3.3): a number that is not finite is
  rendered by \<^verbatim>\<open>ToString\<close>; otherwise the sign is split off, a magnitude of \<open>10^21\<close> or more is
  rendered by \<^verbatim>\<open>ToString\<close>, and anything smaller is rounded to the nearest multiple of
  \<open>10^-f\<close> (the larger one on a tie) and written in fixed notation, padded with zeros to at
  least \<open>f + 1\<close> digits.
\<close>

fun toFixed :: "nat \<Rightarrow> number \<Rightarrow> string" where
  "toFixed f (Fin x0) =
     (let s = (if x0 < 0 then ''-'' else '''');
          x = \<bar>x0\<bar>
      in if 10 ^ 21 \<le> x then s @ toString_pos x
         else
           let n = \<lfloor>x * 10 ^ f + 1 / 2\<rfloor>;
               m = digits n;
               m = (if f \<noteq> 0
                    then (let k = length m;
                              m = (if k \<le> f then replicate (f + 1 - k) CHR ''0'' @ m else m);
                              k = length m
                          in take (k - f) m @ ''.'' @ drop (k - f) m)
                    else m)
           in s @ m)"
| "toFixed f x = Number_toString x"

declare toFixed.simps [simp del]

subsection \<open>Data model\<close>

text \<open>
  Modelled from the spec: the type \<^verbatim>\<open>Product\<close>, which the page imports from \<^verbatim>\<open>@/types\<close>, a
  file that is not in the source tree. The fields are the ones the page reads, typed as the
  specification's data model types them: the four numeric fields are numbers (\<open>quantity\<close>
  and \<open>reorderLevel\<close> integers among them), \<open>supplier\<close> is optional, \<open>status\<close> is a string
  that the page compares with \<^verbatim>\<open>"Active"\<close>.
\<close>

record product =
  sku :: string
  name :: string
  categoryName :: string
  quantity :: number
  unit :: string
  unitCost :: number
  sellingPrice :: number
  reorderLevel :: number
  location :: string
  supplier :: "string option"
  status :: string

text \<open>
  Modelled from the spec: the type \<^verbatim>\<open>StockTransaction\<close>, from the same missing file.
  \<open>reason\<close> is optional; \<open>transactionDate\<close> is the stored text that \<^verbatim>\<open>new Date\<close> parses. The
  field \<^verbatim>\<open>quantity\<close> is named \<open>txQuantity\<close> here, since two records cannot share a field
  name.
\<close>

record stockTransaction =
  transactionDate :: string
  productName :: string
  transactionType :: string
  txQuantity :: number
  userName :: string
  reason :: "string option"

text \<open>
  A report row is an object literal: its keys in iteration (insertion) order, each with a
  string or a number. \<open>Undefined\<close> is what reading a key that the row lacks gives.
\<close>

datatype jsvalue = Str string | Num number | Undefined

type_synonym row = "(string \<times> jsvalue) list"

definition get :: "row \<Rightarrow> string \<Rightarrow> jsvalue" where
  "get r h = (case map_of r h of Some v \<Rightarrow> v | None \<Rightarrow> Undefined)"

text \<open>\<^verbatim>\<open>s || d\<close> on an optional string: \<^verbatim>\<open>undefined\<close> and the empty string are both falsy.\<close>

definition or_default :: "string option \<Rightarrow> string \<Rightarrow> string" where
  "or_default s d = (case s of None \<Rightarrow> d | Some v \<Rightarrow> if v = [] then d else v)"

subsection \<open>Clock and locale\<close>

text \<open>
  The instant that \<^verbatim>\<open>new Date()\<close> returns, by the UTC calendar fields that \<^verbatim>\<open>toISOString\<close>
  prints: the year, the month counted from 1, the day of the month, and the time of day.
\<close>

record utcTime =
  year :: int
  month :: nat
  day :: nat
  hours :: nat
  minutes :: nat
  seconds :: nat
  milliseconds :: nat

definition pad :: "nat \<Rightarrow> int \<Rightarrow> string" where
  "pad w n = replicate (w - length (digits n)) CHR ''0'' @ digits n"

text \<open>
  The Date Time String Format (ECMAScript 21.4.1.32): four digits for the years 0 to 9999,
  a sign and six digits for any other year.
\<close>

definition isoYear :: "int \<Rightarrow> string" where
  "isoYear y =
     (if 0 \<le> y \<and> y \<le> 9999 then pad 4 y
      else (if y < 0 then ''-'' else ''+'') @ pad 6 \<bar>y\<bar>)"

definition isoDate :: "utcTime \<Rightarrow> string" where
  "isoDate t = isoYear (year t) @ ''-'' @ pad 2 (int (month t)) @ ''-'' @ pad 2 (int (day t))"

definition toISOString :: "utcTime \<Rightarrow> string" where
  "toISOString t =
     isoDate t @ ''T'' @ pad 2 (int (hours t)) @ '':'' @ pad 2 (int (minutes t)) @ '':''
     @ pad 2 (int (seconds t)) @ ''.'' @ pad 3 (int (milliseconds t)) @ ''Z''"

text \<open>
  What a run reads from its environment: the clock, and the locale's rendering
  \<^verbatim>\<open>new Date(d).toLocaleString()\<close> of a stored date.
\<close>

record env =
  now :: utcTime
  toLocaleString :: "string \<Rightarrow> string"

definition nowISO :: "env \<Rightarrow> string" where
  "nowISO e = toISOString (now e)"

subsection \<open>Report builders\<close>

definition inventoryRow :: "product \<Rightarrow> row" where
  "inventoryRow p =
     [(''SKU'', Str (sku p)),
      (''Name'', Str (name p)),
      (''Category'', Str (categoryName p)),
      (''Quantity'', Num (quantity p)),
      (''Unit'', Str (unit p)),
      (''Unit Cost'', Num (unitCost p)),
      (''Selling Price'', Num (sellingPrice p)),
      (''Total Value'', Str (toFixed 2 (quantity p * unitCost p))),
      (''Reorder Level'', Num (reorderLevel p)),
      (''Location'', Str (location p)),
      (''Status'', Str (status p))]"

definition inventoryReport :: "product list \<Rightarrow> row list" where
  "inventoryReport ps = map inventoryRow ps"

definition lowStockRow :: "product \<Rightarrow> row" where
  "lowStockRow p =
     [(''SKU'', Str (sku p)),
      (''Name'', Str (name p)),
      (''Category'', Str (categoryName p)),
      (''Current Quantity'', Num (quantity p)),
      (''Reorder Level'', Num (reorderLevel p)),
      (''Units Below Reorder'', Num (reorderLevel p - quantity p)),
      (''Location'', Str (location p)),
      (''Supplier'', Str (or_default (supplier p) ''N/A''))]"

definition lowStock :: "product list \<Rightarrow> product list" where
  "lowStock ps = filter (\<lambda>p. quantity p \<le> reorderLevel p \<and> status p = ''Active'') ps"

definition lowStockReport :: "product list \<Rightarrow> row list" where
  "lowStockReport ps = map lowStockRow (lowStock ps)"

definition transactionRow :: "env \<Rightarrow> stockTransaction \<Rightarrow> row" where
  "transactionRow e tx =
     [(''Date'', Str (toLocaleString e (transactionDate tx))),
      (''Product'', Str (productName tx)),
      (''Type'', Str (transactionType tx)),
      (''Quantity'', Num (txQuantity tx)),
      (''User'', Str (userName tx)),
      (''Reason'', Str (or_default (reason tx) ''N/A''))]"

definition transactionReport :: "env \<Rightarrow> stockTransaction list \<Rightarrow> row list" where
  "transactionReport e txs = map (transactionRow e) txs"

definition valuationRow :: "product \<Rightarrow> row" where
  "valuationRow p =
     [(''SKU'', Str (sku p)),
      (''Name'', Str (name p)),
      (''Category'', Str (categoryName p)),
      (''Quantity'', Num (quantity p)),
      (''Unit Cost'', Str (toFixed 2 (unitCost p))),
      (''Stock Value'', Str (toFixed 2 (quantity p * unitCost p))),
      (''Potential Revenue'', Str (toFixed 2 (quantity p * sellingPrice p))),
      (''Potential Profit'', Str (toFixed 2 (quantity p * (sellingPrice p - unitCost p))))]"

text \<open>The two \<^verbatim>\<open>reduce\<close> calls: a running double sum from the left, starting at 0.\<close>

definition totalValue :: "product list \<Rightarrow> number" where
  "totalValue ps = foldl (\<lambda>sum p. sum + quantity p * unitCost p) 0 ps"

definition totalRevenue :: "product list \<Rightarrow> number" where
  "totalRevenue ps = foldl (\<lambda>sum p. sum + quantity p * sellingPrice p) 0 ps"

definition totalProfit :: "product list \<Rightarrow> number" where
  "totalProfit ps = totalRevenue ps - totalValue ps"

text \<open>The object literal that is pushed, from the three totals.\<close>

definition totalLiteral :: "number \<Rightarrow> number \<Rightarrow> number \<Rightarrow> row" where
  "totalLiteral tv tr tp =
     [(''SKU'', Str ''TOTAL''),
      (''Name'', Str ''''),
      (''Category'', Str ''''),
      (''Quantity'', Num 0),
      (''Unit Cost'', Str ''''),
      (''Stock Value'', Str (toFixed 2 tv)),
      (''Potential Revenue'', Str (toFixed 2 tr)),
      (''Potential Profit'', Str (toFixed 2 tp))]"

definition totalRow :: "product list \<Rightarrow> row" where
  "totalRow ps = totalLiteral (totalValue ps) (totalRevenue ps) (totalProfit ps)"

text \<open>\<^verbatim>\<open>report.push(...)\<close> appends to the array that \<^verbatim>\<open>products.map\<close> has just created.\<close>

definition valuationReport :: "product list \<Rightarrow> row list" where
  "valuationReport ps = map valuationRow ps @ [totalRow ps]"

subsection \<open>The valuation builder on a store of arrays\<close>

text \<open>
  \<^verbatim>\<open>report.push\<close> changes an array in place. Which array that is shows on a store of arrays
  addressed by position: \<^verbatim>\<open>products.map\<close> allocates a new array and leaves the one it reads
  alone, \<^verbatim>\<open>reduce\<close> only reads, and \<^verbatim>\<open>push\<close> extends the array at the address it is given.
  An address that holds no array of the expected kind gives \<open>None\<close>.
\<close>

datatype array = ProductArray "product list" | RowArray "row list"

type_synonym store = "array list"

definition read :: "store \<Rightarrow> nat \<Rightarrow> array option" where
  "read st a = (if a < length st then Some (st ! a) else None)"

definition Array_map :: "(product \<Rightarrow> row) \<Rightarrow> nat \<Rightarrow> store \<Rightarrow> (nat \<times> store) option" where
  "Array_map f a st =
     (case read st a of
        Some (ProductArray ps) \<Rightarrow> Some (length st, st @ [RowArray (map f ps)])
      | _ \<Rightarrow> None)"

definition Array_reduce ::
  "(number \<Rightarrow> product \<Rightarrow> number) \<Rightarrow> number \<Rightarrow> nat \<Rightarrow> store \<Rightarrow> number option" where
  "Array_reduce f z a st =
     (case read st a of Some (ProductArray ps) \<Rightarrow> Some (foldl f z ps) | _ \<Rightarrow> None)"

definition Array_push :: "row \<Rightarrow> nat \<Rightarrow> store \<Rightarrow> store option" where
  "Array_push r a st =
     (case read st a of
        Some (RowArray rs) \<Rightarrow> Some (st[a := RowArray (rs @ [r])])
      | _ \<Rightarrow> None)"

text \<open>
  Lines 74 to 106 of the builder, with \<open>products\<close> the address of the product array; the
  result is the address of \<open>report\<close> and the store after the push.
\<close>

definition valuationReport_store :: "nat \<Rightarrow> store \<Rightarrow> (nat \<times> store) option" where
  "valuationReport_store products st =
     (case Array_map valuationRow products st of
        None \<Rightarrow> None
      | Some (report, st1) \<Rightarrow>
          (case Array_reduce (\<lambda>sum p. sum + quantity p * unitCost p) 0 products st1 of
             None \<Rightarrow> None
           | Some tv \<Rightarrow>
               (case Array_reduce (\<lambda>sum p. sum + quantity p * sellingPrice p) 0
                       products st1 of
                  None \<Rightarrow> None
                | Some tr \<Rightarrow>
                    (case Array_push (totalLiteral tv tr (tr - tv)) report st1 of
                       None \<Rightarrow> None
                     | Some st2 \<Rightarrow> Some (report, st2)))))"

subsection \<open>CSV serializer and export\<close>

text \<open>
  \<^verbatim>\<open>Array.prototype.join\<close> writes \<^verbatim>\<open>undefined\<close> as the empty string and every other element
  by \<^verbatim>\<open>ToString\<close>; \<^verbatim>\<open>String.prototype.split\<close> with a one-character separator always returns at
  least one piece.
\<close>

definition ToString :: "jsvalue \<Rightarrow> string" where
  "ToString v = (case v of Str s \<Rightarrow> s | Num x \<Rightarrow> Number_toString x | Undefined \<Rightarrow> ''undefined'')"

fun intercalate :: "string \<Rightarrow> string list \<Rightarrow> string" where
  "intercalate sep [] = []"
| "intercalate sep [x] = x"
| "intercalate sep (x # y # ys) = x @ sep @ intercalate sep (y # ys)"

definition element_text :: "jsvalue \<Rightarrow> string" where
  "element_text v = (if v = Undefined then [] else ToString v)"

definition join :: "jsvalue list \<Rightarrow> string \<Rightarrow> string" where
  "join xs sep = intercalate sep (map element_text xs)"

fun split_on :: "string \<Rightarrow> char \<Rightarrow> string list" where
  "split_on [] c = [[]]"
| "split_on (x # xs) c =
     (if x = c then [] # split_on xs c
      else (case split_on xs c of [] \<Rightarrow> [[x]] | y # ys \<Rightarrow> (x # y) # ys))"

definition keys :: "row \<Rightarrow> string list" where
  "keys r = map fst r"

definition csvContent :: "row list \<Rightarrow> string" where
  "csvContent data =
     (let headers = keys (data ! 0)
      in join (map Str
           (join (map Str headers) '','' #
            map (\<lambda>row. join (map (\<lambda>header. get row header) headers) '','') data))
           [CHR 0x0A])"

text \<open>
  The effects the page has on the outside: the two kinds of toast, and the click on the
  temporary link, which hands the browser a blob under a file name.
\<close>

record blob =
  parts :: string
  mimeType :: string

datatype effect = ToastError string | ToastSuccess string | LinkClick string blob

record page =
  products :: "product list"
  transactions :: "stockTransaction list"
  effects :: "effect list"

definition emit :: "effect list \<Rightarrow> page \<Rightarrow> page" where
  "emit es s = s\<lparr>effects := effects s @ es\<rparr>"

definition downloadCSV :: "env \<Rightarrow> row list \<Rightarrow> string \<Rightarrow> page \<Rightarrow> page" where
  "downloadCSV e data filename s =
     (if length data = 0 then emit [ToastError ''No data to export''] s
      else
        let b = \<lparr>parts = csvContent data, mimeType = ''text/csv''\<rparr>;
            download = filename @ ''_'' @ (split_on (nowISO e) CHR ''T'') ! 0 @ ''.csv''
        in emit [LinkClick download b, ToastSuccess ''Report downloaded successfully''] s)"

definition generateInventoryReport :: "env \<Rightarrow> page \<Rightarrow> page" where
  "generateInventoryReport e s =
     downloadCSV e (inventoryReport (products s)) ''inventory_report'' s"

definition generateLowStockReport :: "env \<Rightarrow> page \<Rightarrow> page" where
  "generateLowStockReport e s =
     downloadCSV e (lowStockReport (products s)) ''low_stock_report'' s"

definition generateTransactionReport :: "env \<Rightarrow> page \<Rightarrow> page" where
  "generateTransactionReport e s =
     downloadCSV e (transactionReport e (transactions s)) ''transaction_report'' s"

definition generateValuationReport :: "env \<Rightarrow> page \<Rightarrow> page" where
  "generateValuationReport e s =
     downloadCSV e (valuationReport (products s)) ''valuation_report'' s"

text \<open>The handler of the End of Day button.\<close>

definition endOfDay :: "env \<Rightarrow> page \<Rightarrow> page" where
  "endOfDay e s =
     emit [ToastSuccess ''End of Day reports generated'']
       (generateLowStockReport e (generateInventoryReport e s))"

text \<open>The five buttons of the page and what a click on each runs.\<close>

datatype button = InventoryCard | LowStockCard | TransactionCard | ValuationCard | EndOfDayButton

fun onClick :: "button \<Rightarrow> env \<Rightarrow> page \<Rightarrow> page" where
  "onClick InventoryCard = generateInventoryReport"
| "onClick LowStockCard = generateLowStockReport"
| "onClick TransactionCard = generateTransactionReport"
| "onClick ValuationCard = generateValuationReport"
| "onClick EndOfDayButton = endOfDay"

text \<open>The effects that running a handler adds to the ones already there.\<close>

definition performed :: "(page \<Rightarrow> page) \<Rightarrow> page \<Rightarrow> effect list" where
  "performed act s = drop (length (effects s)) (effects (act s))"

fun files :: "effect list \<Rightarrow> (string \<times> blob) list" where
  "files [] = []"
| "files (LinkClick n b # es) = (n, b) # files es"
| "files (_ # es) = files es"

subsection \<open>Summary cards\<close>

text \<open>The Low Stock Items card of the End of Day panel.\<close>

definition lowStockItems :: "product list \<Rightarrow> nat" where
  "lowStockItems ps = length (filter (\<lambda>p. quantity p \<le> reorderLevel p) ps)"

subsection \<open>Reading the output back\<close>

text \<open>
  The vocabulary of the properties below, not part of the page: reading a fixed-notation
  string as a decimal, rounding to hundredths the way \<open>toFixed 2\<close> does, the shape of a
  calendar date, and splitting CSV text on newlines and then on commas.
\<close>

definition is_digit :: "char \<Rightarrow> bool" where
  "is_digit c = (c \<in> set ''0123456789'')"

definition digit_value :: "char \<Rightarrow> int" where
  "digit_value c = int (of_char c) - 48"

definition digits_value :: "string \<Rightarrow> int" where
  "digits_value ds = foldl (\<lambda>a c. 10 * a + digit_value c) 0 ds"

definition unsigned :: "string \<Rightarrow> string" where
  "unsigned s = (case s of [] \<Rightarrow> [] | c # cs \<Rightarrow> if c = CHR ''-'' then cs else s)"

text \<open>Digits, a point and exactly two more digits, after an optional minus sign.\<close>

definition two_decimal_places :: "string \<Rightarrow> bool" where
  "two_decimal_places s =
     (let body = unsigned s; k = length body
      in 4 \<le> k \<and> body ! (k - 3) = CHR ''.''
         \<and> list_all is_digit (take (k - 3) body) \<and> list_all is_digit (drop (k - 2) body))"

definition decimal_value :: "string \<Rightarrow> rat" where
  "decimal_value s =
     (let body = unsigned s;
          ip = takeWhile (\<lambda>c. c \<noteq> CHR ''.'') body;
          fp = drop 1 (dropWhile (\<lambda>c. c \<noteq> CHR ''.'') body)
      in (if body = s then 1 else - 1)
         * (of_int (digits_value ip) + of_int (digits_value fp) / 10 ^ length fp))"

definition round2 :: "rat \<Rightarrow> rat" where
  "round2 x = (if x < 0 then - 1 else 1) * of_int \<lfloor>\<bar>x\<bar> * 100 + 1 / 2\<rfloor> / 100"


definition parse_csv :: "string \<Rightarrow> string list list" where
  "parse_csv text = map (\<lambda>line. split_on line CHR '','') (split_on text CHR 0x0A)"

text \<open>
  What reading back should give: the first row's keys, then for every row the text of its
  value under each of those keys.
\<close>

definition table :: "row list \<Rightarrow> string list list" where
  "table data =
     keys (data ! 0) # map (\<lambda>r. map (\<lambda>h. element_text (get r h)) (keys (data ! 0))) data"

definition plain :: "string \<Rightarrow> bool" where
  "plain s = (CHR '','' \<notin> set s \<and> CHR 0x0A \<notin> set s)"

fun plain_row :: "row \<Rightarrow> bool" where
  "plain_row [] = True"
| "plain_row ((k, v) # r) = (plain k \<and> plain (element_text v) \<and> plain_row r)"

text \<open>
  Uniform rows, the input of the serializer: every row has at least one key, no key twice,
  and the keys of the first row.
\<close>

definition uniform :: "row list \<Rightarrow> bool" where
  "uniform data =
     list_all (\<lambda>r. keys r \<noteq> [] \<and> distinct (keys r) \<and> set (keys r) = set (keys (data ! 0))) data"

text \<open>The text of every blob among some effects, in order.\<close>

definition contents :: "effect list \<Rightarrow> string list" where
  "contents es = map (parts \<circ> snd) (files es)"

subsection \<open>Example data\<close>

definition widget :: product where
  "widget = \<lparr>sku = ''A1'', name = ''Widget'', categoryName = ''Parts'', quantity = Fin 5,
     unit = ''pcs'', unitCost = Fin 10, sellingPrice = Fin 15, reorderLevel = Fin 10,
     location = ''Shelf 1'', supplier = Some ''Acme'', status = ''Active''\<rparr>"

definition morning :: env where
  "morning = \<lparr>now = \<lparr>year = 2024, month = 5, day = 17, hours = 8, minutes = 30, seconds = 0,
     milliseconds = 0\<rparr>, toLocaleString = id\<rparr>"

definition evening :: env where
  "evening = \<lparr>now = \<lparr>year = 2024, month = 5, day = 18, hours = 21, minutes = 5, seconds = 42,
     milliseconds = 917\<rparr>, toLocaleString = rev\<rparr>"


definition emptyPage :: page where
  "emptyPage = \<lparr>products = [], transactions = [], effects = []\<rparr>"

definition widgetPage :: page where
  "widgetPage = \<lparr>products = [widget], transactions = [], effects = []\<rparr>"

definition restock :: stockTransaction where
  "restock = \<lparr>transactionDate = ''2024-05-16T10:00:00.000Z'', productName = ''Widget'',
     transactionType = ''IN'', txQuantity = Fin 5, userName = ''ana'', reason = None\<rparr>"

definition busyPage :: page where
  "busyPage = \<lparr>products = [widget], transactions = [restock],
     effects = [ToastError ''No data to export'']\<rparr>"

definition unnamedSupplier :: product where
  "unnamedSupplier = widget\<lparr>sku := ''C3'', supplier := Some []\<rparr>"

definition bulk :: product where
  "bulk = widget\<lparr>sku := ''D4'', quantity := Fin (10 ^ 21), unitCost := Fin 1\<rparr>"

definition sachetA :: product where
  "sachetA = widget\<lparr>sku := ''E5'', quantity := Fin 1, unitCost := Fin (3 / 32),
     sellingPrice := Fin (11 / 64)\<rparr>"

definition sachetB :: product where
  "sachetB = sachetA\<lparr>sku := ''F6''\<rparr>"

definition discontinued :: product where
  "discontinued = widget\<lparr>sku := ''B2'', status := ''Inactive''\<rparr>"

section \<open>Properties\<close>

subsection \<open>Rounding to a double\<close>

lemma pow2_powi: "pow2 e = 2 powi e"
  by (simp add: pow2_def power_int_def inverse_eq_divide power_one_over)

lemma pow2_pos: "0 < pow2 e"
  by (simp add: pow2_powi)

lemma pow2_add: "pow2 (a + b) = pow2 a * pow2 b"
  by (simp add: pow2_powi power_int_add)

lemma pow2_mono: "a \<le> b \<Longrightarrow> pow2 a \<le> pow2 b"
  by (simp add: pow2_powi power_int_increasing)

lemma pow2_nat: "0 \<le> e \<Longrightarrow> pow2 e = of_int (2 ^ nat e)"
  by (simp add: pow2_def)

lemma binary_exponent_le:
  assumes "0 < a"
  shows "pow2 (binary_exponent a) \<le> a"
proof -
  obtain p q where pq: "quotient_of a = (p, q)"
    by (cases "quotient_of a")
  then have q: "0 < q" and a: "a = of_int p / of_int q"
    using quotient_of_denom_pos [OF pq] quotient_of_div [OF pq] by simp_all
  from assms a q have p: "0 < p"
    by (simp add: zero_less_divide_iff)
  define d where "d = bitlen p - bitlen q"
  show ?thesis
  proof (cases "pow2 d \<le> a")
    case True
    then show ?thesis
      by (simp add: binary_exponent_def pq d_def)
  next
    case False
    have bp: "1 \<le> bitlen p" and bq: "1 \<le> bitlen q"
      using p q bitlen_eq_zero_iff [of p] bitlen_eq_zero_iff [of q] bitlen_nonneg [of p]
        bitlen_nonneg [of q] by linarith+
    have "(2::int) ^ nat (bitlen p - 1) \<le> p"
      using bitlen_bounds [OF p] by simp
    then have "(of_int (2 ^ nat (bitlen p - 1)) :: rat) \<le> of_int p"
      by (simp only: of_int_le_iff)
    then have lo: "pow2 (bitlen p - 1) \<le> of_int p"
      using bp by (simp add: pow2_nat)
    have "q < 2 ^ nat (bitlen q)"
      using bitlen_bounds [OF q] by simp
    then have "(of_int q :: rat) < of_int (2 ^ nat (bitlen q))"
      by (simp only: of_int_less_iff)
    then have hi: "of_int q \<le> pow2 (bitlen q)"
      using bq by (simp add: pow2_nat)
    have "pow2 (d - 1) * of_int q \<le> pow2 (d - 1) * pow2 (bitlen q)"
      using hi pow2_pos [of "d - 1"] by (simp add: mult_le_cancel_left_pos)
    also have "\<dots> = pow2 (bitlen p - 1)"
      by (simp add: pow2_add [symmetric] d_def)
    also have "\<dots> \<le> of_int p"
      by (rule lo)
    finally have "pow2 (d - 1) \<le> a"
      using q by (simp add: a pos_le_divide_eq)
    with False show ?thesis
      by (simp add: binary_exponent_def pq d_def)
  qed
qed

lemma ulp_exponent_ge: "- 1074 \<le> ulp_exponent a"
  by (simp add: ulp_exponent_def)

lemma ulp_exponent_le:
  assumes "pow2 (- 1074) \<le> a"
  shows "pow2 (ulp_exponent a) \<le> a"
proof (cases "- 1022 \<le> binary_exponent a")
  case True
  have "0 < a"
    using assms pow2_pos [of "- 1074"] by linarith
  then have "pow2 (binary_exponent a) \<le> a"
    by (rule binary_exponent_le)
  moreover have "pow2 (ulp_exponent a) \<le> pow2 (binary_exponent a)"
    using True by (intro pow2_mono) (simp add: ulp_exponent_def)
  ultimately show ?thesis
    by linarith
next
  case False
  then have "ulp_exponent a = - 1074"
    by (simp add: ulp_exponent_def)
  with assms show ?thesis
    by simp
qed

lemma round_even_nonneg: "0 \<le> y \<Longrightarrow> 0 \<le> round_even y"
  by (simp add: round_even_def Let_def)

lemma round_even_ge_1: "1 \<le> y \<Longrightarrow> 1 \<le> round_even y"
proof -
  assume "1 \<le> y"
  then have "1 \<le> \<lfloor>y\<rfloor>"
    by (simp add: le_floor_iff)
  then show ?thesis
    by (simp add: round_even_def Let_def)
qed

lemma round_even_of_int [simp]: "round_even (of_int k) = k"
  by (simp add: round_even_def Let_def)


text \<open>Every finite result of rounding is a whole multiple of the smallest double.\<close>

lemma fround_cases:
  assumes "x \<noteq> 0"
  obtains m e where "0 \<le> m" and "- 1074 \<le> e" and "e = ulp_exponent \<bar>x\<bar>"
    and "m = round_even (\<bar>x\<bar> / pow2 e)"
    and "fround x = (if pow2 1024 \<le> of_int m * pow2 e then (if x < 0 then NegInf else PosInf)
                     else Fin (if x < 0 then - (of_int m * pow2 e) else of_int m * pow2 e))"
proof -
  let ?e = "ulp_exponent \<bar>x\<bar>"
  let ?m = "round_even (\<bar>x\<bar> / pow2 ?e)"
  have "0 \<le> \<bar>x\<bar> / pow2 ?e"
    using pow2_pos [of ?e] by simp
  then have "0 \<le> ?m"
    by (rule round_even_nonneg)
  moreover have "- 1074 \<le> ?e"
    by (rule ulp_exponent_ge)
  moreover have "fround x = (if pow2 1024 \<le> of_int ?m * pow2 ?e
      then (if x < 0 then NegInf else PosInf)
      else Fin (if x < 0 then - (of_int ?m * pow2 ?e) else of_int ?m * pow2 ?e))"
    using assms by (simp add: fround_def finite_or_infinite_def nearest_def)
  ultimately show thesis
    using that by blast
qed

lemma fround_grid:
  assumes "fround x = Fin y"
  shows "\<exists>k. y = of_int k * pow2 (- 1074)"
proof (cases "x = 0")
  case True
  with assms have "y = 0"
    by (simp add: fround_def)
  then have "y = of_int 0 * pow2 (- 1074)"
    by simp
  then show ?thesis ..
next
  case False
  then obtain m e where e: "- 1074 \<le> e"
    and f: "fround x = (if pow2 1024 \<le> of_int m * pow2 e then (if x < 0 then NegInf else PosInf)
                     else Fin (if x < 0 then - (of_int m * pow2 e) else of_int m * pow2 e))"
    by (rule fround_cases)
  have "pow2 e = pow2 (e + 1074) * pow2 (- 1074)"
    by (simp add: pow2_add [symmetric])
  also have "pow2 (e + 1074) = of_int (2 ^ nat (e + 1074))"
    using e by (intro pow2_nat) simp
  finally have pe: "pow2 e = of_int (2 ^ nat (e + 1074)) * pow2 (- 1074)" .
  from assms f have "y = (if x < 0 then - (of_int m * pow2 e) else of_int m * pow2 e)"
    by (simp split: if_splits)
  then have "y = of_int ((if x < 0 then - m else m) * 2 ^ nat (e + 1074)) * pow2 (- 1074)"
    by (simp add: pe)
  then show ?thesis ..
qed

lemma fround_not_zero:
  assumes "pow2 (- 1074) \<le> \<bar>x\<bar>"
  shows "fround x \<noteq> Fin 0"
proof -
  have x: "x \<noteq> 0"
    using assms pow2_pos [of "- 1074"] by auto
  then obtain m e where e: "e = ulp_exponent \<bar>x\<bar>" and m: "m = round_even (\<bar>x\<bar> / pow2 e)"
    and f: "fround x = (if pow2 1024 \<le> of_int m * pow2 e then (if x < 0 then NegInf else PosInf)
                     else Fin (if x < 0 then - (of_int m * pow2 e) else of_int m * pow2 e))"
    by (rule fround_cases)
  have "pow2 e \<le> \<bar>x\<bar>"
    unfolding e using assms by (rule ulp_exponent_le)
  then have "1 \<le> \<bar>x\<bar> / pow2 e"
    using pow2_pos [of e] by (simp add: pos_le_divide_eq)
  then have "1 \<le> m"
    unfolding m by (rule round_even_ge_1)
  then have "m \<noteq> 0" and "pow2 e \<noteq> 0"
    using pow2_pos [of e] by simp_all
  then have "(of_int m :: rat) * pow2 e \<noteq> 0" and "- (of_int m * pow2 e) \<noteq> (0 :: rat)"
    by simp_all
  then show ?thesis
    unfolding f by (simp only: number.simps split: if_splits) simp
qed

lemma fround_sign:
  assumes "fround x = Fin y"
  shows "0 \<le> x \<Longrightarrow> 0 \<le> y" and "x \<le> 0 \<Longrightarrow> y \<le> 0"
proof -
  have "(0 \<le> x \<longrightarrow> 0 \<le> y) \<and> (x \<le> 0 \<longrightarrow> y \<le> 0)"
  proof (cases "x = 0")
    case True
    with assms show ?thesis
      by (simp add: fround_def)
  next
    case False
    then obtain m e where m: "0 \<le> m"
      and f: "fround x = (if pow2 1024 \<le> of_int m * pow2 e then (if x < 0 then NegInf else PosInf)
                     else Fin (if x < 0 then - (of_int m * pow2 e) else of_int m * pow2 e))"
      by (rule fround_cases)
    from m have "0 \<le> (of_int m :: rat) * pow2 e"
      using pow2_pos [of e] by simp
    with assms f False show ?thesis
      by (auto split: if_splits)
  qed
  then show "0 \<le> x \<Longrightarrow> 0 \<le> y" and "x \<le> 0 \<Longrightarrow> y \<le> 0"
    by blast+
qed

lemma fround_infinite:
  shows "fround x \<noteq> NaN" and "fround x = PosInf \<Longrightarrow> 0 < x" and "fround x = NegInf \<Longrightarrow> x < 0"
proof -
  have "fround x \<noteq> NaN \<and> (fround x = PosInf \<longrightarrow> 0 < x) \<and> (fround x = NegInf \<longrightarrow> x < 0)"
  proof (cases "x = 0")
    case True
    then show ?thesis
      by (simp add: fround_def)
  next
    case False
    then obtain m e where
      f: "fround x = (if pow2 1024 \<le> of_int m * pow2 e then (if x < 0 then NegInf else PosInf)
                     else Fin (if x < 0 then - (of_int m * pow2 e) else of_int m * pow2 e))"
      by (rule fround_cases)
    with False show ?thesis
      by (auto split: if_splits)
  qed
  then show "fround x \<noteq> NaN" and "fround x = PosInf \<Longrightarrow> 0 < x" and "fround x = NegInf \<Longrightarrow> x < 0"
    by blast+
qed

lemma minus_Fin: "Fin a - Fin b = fround (a - b)"
  by (simp add: minus_number_def)

text \<open>The difference of two doubles is zero only if they are equal, and has the sign of
  the exact difference.\<close>

lemma double_difference:
  assumes "of_double a" and "of_double b"
  shows "(Fin a - Fin b = 0) = (b = a)" and "(0 < Fin a - Fin b) = (b < a)"
proof -
  from assms obtain i j where a: "a = of_int i * pow2 (- 1074)" and b: "b = of_int j * pow2 (- 1074)"
    using fround_grid [of a a] fround_grid [of b b] by (auto simp: of_double_def)
  have far: "pow2 (- 1074) \<le> \<bar>a - b\<bar>" if "a \<noteq> b"
  proof -
    from that have "i \<noteq> j"
      by (auto simp: a b)
    then have "1 \<le> \<bar>i - j\<bar>"
      by linarith
    then have "(1::rat) \<le> of_int \<bar>i - j\<bar>"
      by (simp only: of_int_1_le_iff)
    then have "1 * pow2 (- 1074) \<le> of_int \<bar>i - j\<bar> * pow2 (- 1074)"
      using pow2_pos [of "- 1074"] by (simp only: mult_le_cancel_right_pos)
    also have "\<dots> = \<bar>a - b\<bar>"
      using pow2_pos [of "- 1074"] by (simp add: a b abs_mult left_diff_distrib [symmetric])
    finally show ?thesis
      by simp
  qed
  show zero: "(Fin a - Fin b = 0) = (b = a)"
  proof (cases "a = b")
    case True
    then show ?thesis
      by (simp add: minus_Fin fround_def zero_number_def)
  next
    case False
    from far [OF False] have "fround (a - b) \<noteq> Fin 0"
      by (rule fround_not_zero)
    with False show ?thesis
      by (auto simp: minus_Fin zero_number_def)
  qed
  show "(0 < Fin a - Fin b) = (b < a)"
  proof (cases "fround (a - b)")
    case (Fin y)
    show ?thesis
    proof (cases "b < a")
      case True
      then have "0 \<le> y"
        using fround_sign(1) [OF Fin] by simp
      moreover have "y \<noteq> 0"
        using zero True Fin by (auto simp: minus_Fin zero_number_def)
      ultimately show ?thesis
        using True by (simp add: minus_Fin Fin zero_number_def)
    next
      case False
      then have "y \<le> 0"
        using fround_sign(2) [OF Fin] by simp
      with False show ?thesis
        by (simp add: minus_Fin Fin zero_number_def)
    qed
  next
    case PosInf
    with fround_infinite(2) [of "a - b"] show ?thesis
      by (simp add: minus_Fin zero_number_def)
  next
    case NegInf
    with fround_infinite(3) [of "a - b"] show ?thesis
      by (simp add: minus_Fin zero_number_def)
  next
    case NaN
    with fround_infinite(1) [of "a - b"] show ?thesis
      by simp
  qed
qed


text \<open>Integers of magnitude up to \<open>2^53\<close> are doubles.\<close>

lemma fround_of_int:
  assumes "\<bar>k\<bar> \<le> 2 ^ 53"
  shows "fround (of_int k) = Fin (of_int k)"
proof (cases "k = 0")
  case True
  then show ?thesis
    by (simp add: fround_def)
next
  case False
  define a :: rat where "a = of_int \<bar>k\<bar>"
  define e where "e = ulp_exponent a"
  have a1: "1 \<le> a" and a53: "a \<le> pow2 53"
    using False assms by (simp_all add: a_def pow2_def)
  have abs: "\<bar>of_int k :: rat\<bar> = a"
    by (simp add: a_def)
  have "pow2 (binary_exponent a) \<le> a"
    using a1 by (intro binary_exponent_le) simp
  with a53 have "pow2 (binary_exponent a) \<le> pow2 53"
    by linarith
  have be: "binary_exponent a \<le> 53"
  proof (rule ccontr)
    assume "\<not> binary_exponent a \<le> 53"
    then have "pow2 54 \<le> pow2 (binary_exponent a)"
      by (intro pow2_mono) simp
    with \<open>pow2 (binary_exponent a) \<le> pow2 53\<close> have "pow2 54 \<le> pow2 53"
      by linarith
    then show False
      by (simp add: pow2_def)
  qed
  have exact: "of_int (round_even (a / pow2 e)) * pow2 e = a"
  proof (cases "e \<le> 0")
    case True
    have "pow2 (- e) * pow2 e = 1"
      by (simp add: pow2_add [symmetric] pow2_def)
    then have inv: "a / pow2 e = a * pow2 (- e)"
      using pow2_pos [of e] by (simp add: field_simps)
    also have "\<dots> = of_int (\<bar>k\<bar> * 2 ^ nat (- e))"
      using True by (simp add: a_def pow2_nat)
    finally have "round_even (a / pow2 e) = \<bar>k\<bar> * 2 ^ nat (- e)"
      by (simp only: round_even_of_int)
    then have "of_int (round_even (a / pow2 e)) * pow2 e = a * pow2 (- e) * pow2 e"
      using True by (simp add: a_def pow2_nat)
    also have "\<dots> = a"
      using \<open>pow2 (- e) * pow2 e = 1\<close> by (simp add: mult.assoc)
    finally show ?thesis .
  next
    case False
    with be have b53: "binary_exponent a = 53" and e1: "e = 1"
      by (simp_all add: e_def ulp_exponent_def)
    from \<open>pow2 (binary_exponent a) \<le> a\<close> a53 have "a = pow2 53"
      by (simp add: b53)
    then have "a / pow2 e = of_int (2 ^ 52)"
      by (simp add: e1 pow2_def)
    then have "round_even (a / pow2 e) = 2 ^ 52"
      by (simp only: round_even_of_int)
    then show ?thesis
      by (simp add: e1 \<open>a = pow2 53\<close> pow2_def)
  qed
  have "pow2 54 \<le> pow2 1024"
    by (intro pow2_mono) simp
  moreover have "pow2 53 < pow2 54"
    by (simp add: pow2_def)
  ultimately have small: "\<not> pow2 1024 \<le> a"
    using a53 by linarith
  have "of_int k \<noteq> (0 :: rat)"
    using False by simp
  then have "fround (of_int k) = Fin (if of_int k < (0 :: rat) then - a else a)"
    using exact small
    by (simp add: fround_def finite_or_infinite_def nearest_def abs e_def [symmetric])
  also have "(if of_int k < (0 :: rat) then - a else a) = of_int k"
    by (simp add: a_def)
  finally show ?thesis .
qed

lemma integer_difference:
  assumes "\<bar>i - j\<bar> \<le> 2 ^ 53"
  shows "Fin (of_int i) - Fin (of_int j) = Fin (of_int (i - j))"
  using fround_of_int [OF assms] by (simp add: minus_Fin)

subsection \<open>Effects of the export\<close>

lemma effects_emit [simp]: "effects (emit es s) = effects s @ es"
  by (simp add: emit_def)

lemma products_emit [simp]: "products (emit es s) = products s"
  by (simp add: emit_def)

lemma transactions_emit [simp]: "transactions (emit es s) = transactions s"
  by (simp add: emit_def)

lemma performed_emit [simp]: "performed (emit es) s = es"
  by (simp add: performed_def)

lemma downloadCSV_emit:
  "downloadCSV e data filename s =
     emit (if data = [] then [ToastError ''No data to export'']
           else [LinkClick (filename @ ''_'' @ split_on (nowISO e) CHR ''T'' ! 0 @ ''.csv'')
                   \<lparr>parts = csvContent data, mimeType = ''text/csv''\<rparr>,
                 ToastSuccess ''Report downloaded successfully'']) s"
  by (simp add: downloadCSV_def Let_def)

lemma performed_downloadCSV:
  "performed (downloadCSV e data filename) s =
     (if data = [] then [ToastError ''No data to export'']
      else [LinkClick (filename @ ''_'' @ split_on (nowISO e) CHR ''T'' ! 0 @ ''.csv'')
              \<lparr>parts = csvContent data, mimeType = ''text/csv''\<rparr>,
            ToastSuccess ''Report downloaded successfully''])"
  by (simp only: downloadCSV_emit performed_def effects_emit append_eq_conv_conj
        drop_append length_append) simp

lemma products_downloadCSV [simp]: "products (downloadCSV e data filename s) = products s"
  by (simp only: downloadCSV_emit products_emit)

lemma transactions_downloadCSV [simp]:
  "transactions (downloadCSV e data filename s) = transactions s"
  by (simp only: downloadCSV_emit transactions_emit)

lemma valuationReport_not_empty: "valuationReport ps \<noteq> []"
  by (simp add: valuationReport_def)

text \<open>
  C4. An export of an empty row sequence raises the "No data to export" toast and does nothing
  else: no link is clicked (no file) and no success toast follows. The valuation report is
  never empty, its last row being the TOTAL row, so its export always clicks the link and
  raises the success toast.
\<close>

theorem empty_export_signals_no_data:
  "performed (downloadCSV e [] filename) s = [ToastError ''No data to export'']
   \<and> files (performed (downloadCSV e [] filename) s) = []
   \<and> valuationReport ps \<noteq> []
   \<and> last (valuationReport ps) = totalRow ps
   \<and> performed (generateValuationReport e) s =
       [LinkClick (''valuation_report_'' @ split_on (nowISO e) CHR ''T'' ! 0 @ ''.csv'')
          \<lparr>parts = csvContent (valuationReport (products s)), mimeType = ''text/csv''\<rparr>,
        ToastSuccess ''Report downloaded successfully'']"
proof -
  have "performed (generateValuationReport e) s =
      performed (downloadCSV e (valuationReport (products s)) ''valuation_report'') s"
    by (simp add: performed_def generateValuationReport_def)
  then show ?thesis
    by (simp add: performed_downloadCSV valuationReport_not_empty)
      (simp add: valuationReport_def)
qed

lemma performed_generateInventoryReport:
  "performed (generateInventoryReport e) s =
     performed (downloadCSV e (inventoryReport (products s)) ''inventory_report'') s"
  by (simp add: performed_def generateInventoryReport_def)

lemma performed_generateLowStockReport:
  "performed (generateLowStockReport e) s =
     performed (downloadCSV e (lowStockReport (products s)) ''low_stock_report'') s"
  by (simp add: performed_def generateLowStockReport_def)


lemma performed_generateValuationReport:
  "performed (generateValuationReport e) s =
     performed (downloadCSV e (valuationReport (products s)) ''valuation_report'') s"
  by (simp add: performed_def generateValuationReport_def)

lemma effects_downloadCSV:
  "effects (downloadCSV e data filename s) =
     effects s @ performed (downloadCSV e data filename) s"
  by (simp only: performed_downloadCSV) (simp add: downloadCSV_emit)

lemma effects_generateInventoryReport:
  "effects (generateInventoryReport e s) = effects s @ performed (generateInventoryReport e) s"
  by (simp only: performed_generateInventoryReport)
    (simp only: generateInventoryReport_def effects_downloadCSV)

lemma effects_generateLowStockReport:
  "effects (generateLowStockReport e s) = effects s @ performed (generateLowStockReport e) s"
  by (simp only: performed_generateLowStockReport)
    (simp only: generateLowStockReport_def effects_downloadCSV)

lemma inventoryReport_empty [simp]: "inventoryReport ps = [] \<longleftrightarrow> ps = []"
  by (simp add: inventoryReport_def)

lemma lowStockReport_Nil [simp]: "lowStockReport [] = []"
  by (simp add: lowStockReport_def lowStock_def)

subsection \<open>The snapshots are only read\<close>

lemma read_append: "a < length st \<Longrightarrow> read (st @ ys) a = read st a"
  by (simp add: read_def nth_append)

lemma read_fresh: "read (st @ [x]) (length st) = Some x"
  by (simp add: read_def)

lemma valuationReport_store_result:
  assumes "read st a = Some (ProductArray ps)"
  shows "valuationReport_store a st = Some (length st, st @ [RowArray (valuationReport ps)])"
proof -
  let ?st1 = "st @ [RowArray (map valuationRow ps)]"
  from assms have a: "a < length st"
    by (simp add: read_def split: if_splits)
  have step1: "Array_map valuationRow a st = Some (length st, ?st1)"
    using assms by (simp add: Array_map_def)
  have still: "read ?st1 a = Some (ProductArray ps)"
    using assms a by (simp add: read_append)
  have step2: "Array_reduce (\<lambda>sum p. sum + quantity p * unitCost p) 0 a ?st1 =
      Some (totalValue ps)"
    using still by (simp add: Array_reduce_def totalValue_def)
  have step3: "Array_reduce (\<lambda>sum p. sum + quantity p * sellingPrice p) 0 a ?st1 =
      Some (totalRevenue ps)"
    using still by (simp add: Array_reduce_def totalRevenue_def)
  have step4: "Array_push (totalLiteral (totalValue ps) (totalRevenue ps)
        (totalRevenue ps - totalValue ps)) (length st) ?st1 =
      Some (st @ [RowArray (valuationReport ps)])"
    by (simp add: Array_push_def read_fresh valuationReport_def totalRow_def totalProfit_def)
  show ?thesis
    by (simp add: valuationReport_store_def step1 step2 step3 step4)
qed

text \<open>
  C8. No handler of the page and no export writes to the two snapshots: after a click on any
  of the five buttons (the four report cards, the valuation card included, and End of Day),
  and after \<open>downloadCSV\<close> on any rows, \<open>products\<close> and \<open>transactions\<close> are what they were.
  On the store of arrays, the valuation builder leaves every array that was there as it was,
  the product array among them: the TOTAL row is pushed to the array that \<open>map\<close> has just
  allocated, which ends up holding the valuation report.
\<close>

theorem snapshots_unchanged:
  "products (onClick b e s) = products s
   \<and> transactions (onClick b e s) = transactions s
   \<and> products (downloadCSV e data filename s) = products s
   \<and> transactions (downloadCSV e data filename s) = transactions s
   \<and> (read st a = Some (ProductArray ps) \<longrightarrow>
        valuationReport_store a st = Some (length st, st @ [RowArray (valuationReport ps)])
        \<and> read (st @ [RowArray (valuationReport ps)]) a = Some (ProductArray ps)
        \<and> (\<forall>c < length st. read (st @ [RowArray (valuationReport ps)]) c = read st c))"
proof -
  have handlers: "products (onClick b e s) = products s
      \<and> transactions (onClick b e s) = transactions s"
    by (cases b)
      (simp_all add: generateInventoryReport_def generateLowStockReport_def
        generateTransactionReport_def generateValuationReport_def endOfDay_def)
  have builder: "valuationReport_store a st =
        Some (length st, st @ [RowArray (valuationReport ps)])
      \<and> read (st @ [RowArray (valuationReport ps)]) a = Some (ProductArray ps)"
    if r: "read st a = Some (ProductArray ps)"
  proof -
    from r have "a < length st"
      by (simp add: read_def split: if_splits)
    with r valuationReport_store_result [OF r] show ?thesis
      by (simp add: read_append)
  qed
  from handlers builder show ?thesis
    by (simp add: read_append)
qed

theorem snapshots_unchanged_witness:
  "read [ProductArray [widget]] 0 = Some (ProductArray [widget])
   \<and> valuationReport_store 0 [ProductArray [widget]] =
       Some (1, [ProductArray [widget], RowArray (valuationReport [widget])])
   \<and> read [ProductArray [widget], RowArray (valuationReport [widget])] 0 =
       Some (ProductArray [widget])
   \<and> products (onClick ValuationCard morning widgetPage) = [widget]"
proof -
  have h: "read [ProductArray [widget]] 0 = Some (ProductArray [widget])"
    by (simp add: read_def)
  from snapshots_unchanged [of ValuationCard morning widgetPage _ _ "[ProductArray [widget]]" 0
      "[widget]"] h
  show ?thesis
    by (simp add: widgetPage_def)
qed

subsection \<open>End of Day\<close>

text \<open>
  C9. The End of Day handler runs the inventory export, then the low-stock export, and then
  raises the toast "End of Day reports generated" whatever the two exports did. On an empty
  product collection both exports raise "No data to export", no link is clicked, and the
  success toast still follows.
\<close>

theorem endOfDay_always_reports_success:
  "performed (endOfDay e) s =
     performed (generateInventoryReport e) s
     @ performed (generateLowStockReport e) (generateInventoryReport e s)
     @ [ToastSuccess ''End of Day reports generated'']
   \<and> performed (endOfDay e) (s\<lparr>products := []\<rparr>) =
       [ToastError ''No data to export'', ToastError ''No data to export'',
        ToastSuccess ''End of Day reports generated'']
   \<and> files (performed (endOfDay e) (s\<lparr>products := []\<rparr>)) = []"
proof -
  have general: "performed (endOfDay e) t =
     performed (generateInventoryReport e) t
     @ performed (generateLowStockReport e) (generateInventoryReport e t)
     @ [ToastSuccess ''End of Day reports generated'']" for t
  proof -
    let ?t' = "generateInventoryReport e t"
    have "effects (endOfDay e t) =
        effects (generateLowStockReport e ?t') @ [ToastSuccess ''End of Day reports generated'']"
      by (simp add: endOfDay_def)
    also have "effects (generateLowStockReport e ?t') =
        effects ?t' @ performed (generateLowStockReport e) ?t'"
      by (rule effects_generateLowStockReport)
    also have "effects ?t' = effects t @ performed (generateInventoryReport e) t"
      by (rule effects_generateInventoryReport)
    finally show ?thesis
      by (simp add: performed_def [of "endOfDay e"])
  qed
  have empty: "performed (endOfDay e) (s\<lparr>products := []\<rparr>) =
       [ToastError ''No data to export'', ToastError ''No data to export'',
        ToastSuccess ''End of Day reports generated'']"
    by (simp add: general performed_generateInventoryReport performed_generateLowStockReport
        performed_downloadCSV generateInventoryReport_def)
  show ?thesis
    using general [of s] empty by simp
qed

subsection \<open>Summary card against the low-stock report\<close>

text \<open>
  C7. The Low Stock Items card counts the products with \<open>quantity \<le> reorderLevel\<close>, whatever
  their status; the low-stock report keeps only those of them that are Active, so the card's
  count is never below the report's number of rows.
\<close>

theorem lowStockItems_covers_report:
  "lowStockItems ps = length (filter (\<lambda>p. quantity p \<le> reorderLevel p) ps)
   \<and> length (lowStockReport ps) \<le> lowStockItems ps"
proof -
  have "lowStock ps = filter (\<lambda>p. status p = ''Active'') (filter (\<lambda>p. quantity p \<le> reorderLevel p) ps)"
    by (simp add: lowStock_def conj_commute)
  then have "length (lowStock ps) \<le> length (filter (\<lambda>p. quantity p \<le> reorderLevel p) ps)"
    by (simp only: length_filter_le)
  then show ?thesis
    by (simp add: lowStockItems_def lowStockReport_def)
qed

lemma filters_differ:
  "lowStockItems [discontinued] = 1 \<and> lowStockReport [discontinued] = []"
  by (simp add: lowStockItems_def lowStockReport_def lowStock_def discontinued_def widget_def)

subsection \<open>What the CSV text depends on\<close>

lemma contents_downloadCSV:
  "contents (performed (downloadCSV e data filename) s) =
     (if data = [] then [] else [csvContent data])"
  by (simp add: performed_downloadCSV contents_def)

text \<open>
  C10. The CSV text of the inventory, low-stock and valuation exports is determined by the
  product collection: two runs on pages with equal products give the same text, whatever the
  clock, the locale, the transactions and the effects already performed are.
\<close>

theorem csv_text_determined_by_products:
  assumes "products s = products s'"
  shows "contents (performed (generateInventoryReport e) s) =
           contents (performed (generateInventoryReport e') s')
       \<and> contents (performed (generateLowStockReport e) s) =
           contents (performed (generateLowStockReport e') s')
       \<and> contents (performed (generateValuationReport e) s) =
           contents (performed (generateValuationReport e') s')"
  using assms
  by (simp only: performed_generateInventoryReport performed_generateLowStockReport
      performed_generateValuationReport contents_downloadCSV)

theorem csv_text_determined_by_products_witness:
  "products widgetPage = products busyPage
   \<and> contents (performed (generateInventoryReport morning) widgetPage) =
       contents (performed (generateInventoryReport evening) busyPage)
   \<and> contents (performed (generateLowStockReport morning) widgetPage) =
       contents (performed (generateLowStockReport evening) busyPage)
   \<and> contents (performed (generateValuationReport morning) widgetPage) =
       contents (performed (generateValuationReport evening) busyPage)"
  using csv_text_determined_by_products [of widgetPage busyPage morning evening]
  by (simp add: widgetPage_def busyPage_def)

lemma clock_and_locale_show_elsewhere:
  "map fst (files (performed (generateValuationReport morning) emptyPage)) =
     [''valuation_report_2024-05-17.csv'']
   \<and> map fst (files (performed (generateValuationReport evening) emptyPage)) =
     [''valuation_report_2024-05-18.csv'']
   \<and> contents (performed (generateTransactionReport morning) busyPage) \<noteq>
     contents (performed (generateTransactionReport evening) busyPage)"
  by code_simp

subsection \<open>Low-stock report\<close>

lemma lowStock_filter:
  "lowStock ps = filter (\<lambda>p. status p = ''Active'' \<and> quantity p \<le> reorderLevel p) ps"
  by (simp add: lowStock_def conj_commute)

lemma rounded_difference: "Fin 9007199254740994 - Fin 1 = Fin 9007199254740992"
  by code_simp

text \<open>
  C1, as the page has it. The low-stock report is the list of the low-stock rows of exactly
  the products that are Active with \<open>quantity \<le> reorderLevel\<close>, in the collection's order.
  Units Below Reorder is the double difference \<open>reorderLevel - quantity\<close>. For finite
  doubles it is zero exactly at the threshold and positive below it, and it is the exact
  difference when both are integers no more than \<open>2^53\<close> apart. The Supplier column is the
  product's supplier when that is a non-empty string, and N/A when the supplier is absent
  or is the empty string.
\<close>

theorem lowStockReport_rows:
  "lowStockReport ps =
     map lowStockRow (filter (\<lambda>p. status p = ''Active'' \<and> quantity p \<le> reorderLevel p) ps)
   \<and> get (lowStockRow p) ''Units Below Reorder'' = Num (reorderLevel p - quantity p)
   \<and> (reorderLevel p = Fin a \<and> quantity p = Fin b \<and> of_double a \<and> of_double b \<longrightarrow>
        (reorderLevel p - quantity p = 0) = (quantity p = reorderLevel p)
        \<and> (0 < reorderLevel p - quantity p) = (quantity p < reorderLevel p))
   \<and> (reorderLevel p = Fin (of_int i) \<and> quantity p = Fin (of_int j) \<and> \<bar>i - j\<bar> \<le> 2 ^ 53 \<longrightarrow>
        reorderLevel p - quantity p = Fin (of_int (i - j)))
   \<and> get (lowStockRow (p\<lparr>supplier := Some (c # cs)\<rparr>)) ''Supplier'' = Str (c # cs)
   \<and> get (lowStockRow (p\<lparr>supplier := None\<rparr>)) ''Supplier'' = Str ''N/A''
   \<and> get (lowStockRow (p\<lparr>supplier := Some []\<rparr>)) ''Supplier'' = Str ''N/A''"
proof -
  have rows: "lowStockReport ps =
      map lowStockRow (filter (\<lambda>p. status p = ''Active'' \<and> quantity p \<le> reorderLevel p) ps)"
    by (simp add: lowStockReport_def lowStock_filter)
  have cell: "get (lowStockRow p) ''Units Below Reorder'' = Num (reorderLevel p - quantity p)"
    by (simp add: lowStockRow_def get_def)
  have threshold: "(reorderLevel p - quantity p = 0) = (quantity p = reorderLevel p)
      \<and> (0 < reorderLevel p - quantity p) = (quantity p < reorderLevel p)"
    if h: "reorderLevel p = Fin a" "quantity p = Fin b" "of_double a" "of_double b"
  proof -
    have "(quantity p = reorderLevel p) = (b = a)" and "(quantity p < reorderLevel p) = (b < a)"
      by (simp_all add: h(1,2))
    then show ?thesis
      using double_difference [OF h(3,4)] by (simp only: h(1,2))
  qed
  have exact: "reorderLevel p - quantity p = Fin (of_int (i - j))"
    if "reorderLevel p = Fin (of_int i)" "quantity p = Fin (of_int j)" "\<bar>i - j\<bar> \<le> 2 ^ 53"
    using that integer_difference [of i j] by simp
  have supplier: "get (lowStockRow (p\<lparr>supplier := Some (c # cs)\<rparr>)) ''Supplier'' = Str (c # cs)"
    "get (lowStockRow (p\<lparr>supplier := None\<rparr>)) ''Supplier'' = Str ''N/A''"
    "get (lowStockRow (p\<lparr>supplier := Some []\<rparr>)) ''Supplier'' = Str ''N/A''"
    by (simp_all add: lowStockRow_def get_def or_default_def)
  from rows cell threshold exact supplier show ?thesis
    by blast
qed

theorem lowStockReport_rows_witness:
  "reorderLevel widget = Fin 10 \<and> quantity widget = Fin 5 \<and> of_double 10 \<and> of_double 5
   \<and> reorderLevel widget = Fin (of_int 10) \<and> quantity widget = Fin (of_int 5)
   \<and> \<bar>10 - 5 :: int\<bar> \<le> 2 ^ 53
   \<and> lowStockReport [widget, discontinued] = [lowStockRow widget]
   \<and> get (lowStockRow widget) ''Units Below Reorder'' = Num (Fin 5)
   \<and> reorderLevel widget - quantity widget \<noteq> 0
   \<and> 0 < reorderLevel widget - quantity widget"
proof -
  have h: "reorderLevel widget = Fin 10" "quantity widget = Fin 5" "of_double 10" "of_double 5"
    "reorderLevel widget = Fin (of_int 10)" "quantity widget = Fin (of_int 5)"
    "\<bar>10 - 5 :: int\<bar> \<le> 2 ^ 53"
    by code_simp+
  have f: "filter (\<lambda>p. status p = ''Active'' \<and> quantity p \<le> reorderLevel p)
      [widget, discontinued] = [widget]"
    by (simp add: widget_def discontinued_def)
  have lt: "quantity widget < reorderLevel widget" "quantity widget \<noteq> reorderLevel widget"
    by (simp_all add: widget_def)
  from lowStockReport_rows [of "[widget, discontinued]" widget 10 5 10 5] h f lt
  show ?thesis
    by (simp add: zero_number_def)
qed

text \<open>
  Against C1 as stated: a product whose supplier is the empty string is not without a
  supplier field, yet its row says N/A, not the product's supplier.
\<close>

theorem empty_supplier_counterexample:
  "supplier unnamedSupplier = Some []
   \<and> length (lowStockReport [unnamedSupplier]) = 1
   \<and> get (lowStockReport [unnamedSupplier] ! 0) ''Supplier'' = Str ''N/A''
   \<and> get (lowStockReport [unnamedSupplier] ! 0) ''Supplier'' \<noteq> Str []"
  by (simp add: unnamedSupplier_def widget_def lowStockReport_def lowStock_def lowStockRow_def
      get_def or_default_def)

subsection \<open>Fixed notation with two decimals\<close>

lemma digit_char_cases:
  "0 \<le> d \<Longrightarrow> d < 10 \<Longrightarrow> is_digit (digit_char (nat d)) \<and> digit_value (digit_char (nat d)) = d"
proof -
  assume "0 \<le> d" "d < 10"
  then have "d = 0 \<or> d = 1 \<or> d = 2 \<or> d = 3 \<or> d = 4 \<or> d = 5 \<or> d = 6 \<or> d = 7 \<or> d = 8 \<or> d = 9"
    by presburger
  then show ?thesis
    by (elim disjE) (simp_all add: digit_char_def is_digit_def digit_value_def)
qed

lemma digits_value_snoc: "digits_value (ds @ [c]) = 10 * digits_value ds + digit_value c"
  by (simp add: digits_value_def)

lemma digits_value_Nil [simp]: "digits_value [] = 0"
  by (simp add: digits_value_def)

lemma digits_value_append:
  "digits_value (a @ b) = digits_value a * 10 ^ length b + digits_value b"
proof (induction b rule: rev_induct)
  case Nil
  then show ?case by simp
next
  case (snoc c b)
  have "digits_value (a @ b @ [c]) = 10 * digits_value (a @ b) + digit_value c"
    using digits_value_snoc [of "a @ b" c] by simp
  with snoc show ?case
    by (simp add: digits_value_snoc algebra_simps)
qed

lemma digits_value_zeros: "digits_value (replicate k CHR ''0'') = 0"
  by (induction k) (simp_all add: digits_value_def digit_value_def)

lemma digits_props:
  "0 \<le> n \<Longrightarrow> digits n \<noteq> [] \<and> list_all is_digit (digits n) \<and> digits_value (digits n) = n"
proof (induction n rule: digits.induct)
  case (1 n)
  show ?case
  proof (cases "n < 10")
    case True
    with "1.prems" digit_char_cases [of n] show ?thesis
      by (simp add: digits.simps [of n] digits_value_def)
  next
    case False
    with "1.prems" have ih: "digits (n div 10) \<noteq> [] \<and> list_all is_digit (digits (n div 10))
        \<and> digits_value (digits (n div 10)) = n div 10"
      by (intro "1.IH") simp_all
    have "0 \<le> n mod 10" "n mod 10 < 10" by simp_all
    from digit_char_cases [OF this] ih False show ?thesis
      by (simp add: digits.simps [of n] digits_value_snoc)
  qed
qed


lemma is_digit_not_punct: "is_digit c \<Longrightarrow> c \<noteq> CHR ''.'' \<and> c \<noteq> CHR ''-''"
  by (auto simp: is_digit_def)

lemma unsigned_digits:
  assumes "a \<noteq> []" and "list_all is_digit a"
  shows "unsigned (a @ t) = a @ t" and "unsigned (CHR ''-'' # a @ t) = a @ t"
proof -
  from assms obtain c cs where a: "a = c # cs" and "is_digit c"
    by (cases a) auto
  then have "c \<noteq> CHR ''-''"
    using is_digit_not_punct by blast
  with a show "unsigned (a @ t) = a @ t"
    by (simp add: unsigned_def)
  show "unsigned (CHR ''-'' # a @ t) = a @ t"
    by (simp add: unsigned_def)
qed

lemma integer_part:
  assumes "list_all is_digit a"
  shows "takeWhile (\<lambda>c. c \<noteq> CHR ''.'') (a @ CHR ''.'' # b) = a"
    and "dropWhile (\<lambda>c. c \<noteq> CHR ''.'') (a @ CHR ''.'' # b) = CHR ''.'' # b"
  using assms by (induction a) (auto dest: is_digit_not_punct)

lemma fixed_notation:
  assumes "a \<noteq> []" and "list_all is_digit a" and "list_all is_digit b" and "length b = 2"
  shows "two_decimal_places (a @ CHR ''.'' # b)"
    and "two_decimal_places (CHR ''-'' # a @ CHR ''.'' # b)"
    and "decimal_value (a @ CHR ''.'' # b) =
           of_int (digits_value a) + of_int (digits_value b) / 100"
    and "decimal_value (CHR ''-'' # a @ CHR ''.'' # b) =
           - (of_int (digits_value a) + of_int (digits_value b) / 100)"
proof -
  let ?body = "a @ CHR ''.'' # b"
  have u: "unsigned ?body = ?body" "unsigned (CHR ''-'' # ?body) = ?body"
    using unsigned_digits [OF assms(1,2)] by simp_all
  have len: "length ?body = length a + 3" "0 < length a"
    using assms(1,4) by simp_all
  have shape: "4 \<le> length ?body \<and> ?body ! (length ?body - 3) = CHR ''.''
      \<and> list_all is_digit (take (length ?body - 3) ?body)
      \<and> list_all is_digit (drop (length ?body - 2) ?body)"
    using assms len by (simp add: nth_append Suc_le_eq)
  show "two_decimal_places ?body"
    using shape by (simp only: two_decimal_places_def Let_def u)
  show "two_decimal_places (CHR ''-'' # ?body)"
    using shape by (simp only: two_decimal_places_def Let_def u)
  have v: "of_int (digits_value (takeWhile (\<lambda>c. c \<noteq> CHR ''.'') ?body))
      + of_int (digits_value (drop 1 (dropWhile (\<lambda>c. c \<noteq> CHR ''.'') ?body)))
        / 10 ^ length (drop 1 (dropWhile (\<lambda>c. c \<noteq> CHR ''.'') ?body))
      = (of_int (digits_value a) + of_int (digits_value b) / 100 :: rat)"
    using assms(4) by (simp add: integer_part [OF assms(2)])
  show "decimal_value ?body = of_int (digits_value a) + of_int (digits_value b) / 100"
    using v by (simp only: decimal_value_def Let_def u) simp
  have "?body \<noteq> CHR ''-'' # ?body"
    by simp
  then show "decimal_value (CHR ''-'' # ?body) =
      - (of_int (digits_value a) + of_int (digits_value b) / 100)"
    using v by (simp only: decimal_value_def Let_def u) simp
qed


lemma toFixed_2_unfold:
  assumes "\<bar>x\<bar> < 10 ^ 21"
  shows "toFixed 2 (Fin x) =
    (let m0 = digits \<lfloor>\<bar>x\<bar> * 100 + 1 / 2\<rfloor>;
         m = (if length m0 \<le> 2 then replicate (3 - length m0) CHR ''0'' @ m0 else m0)
     in (if x < 0 then ''-'' else []) @ take (length m - 2) m @ CHR ''.'' # drop (length m - 2) m)"
  using assms by (simp add: toFixed.simps Let_def)

lemma toFixed_2_fixed:
  assumes "\<bar>x\<bar> < 10 ^ 21"
  shows "two_decimal_places (toFixed 2 (Fin x))" and "decimal_value (toFixed 2 (Fin x)) = round2 x"
proof -
  define n where "n = \<lfloor>\<bar>x\<bar> * 100 + 1 / 2\<rfloor>"
  define m0 where "m0 = digits n"
  define m where "m = (if length m0 \<le> 2 then replicate (3 - length m0) CHR ''0'' @ m0 else m0)"
  define a where "a = take (length m - 2) m"
  define b where "b = drop (length m - 2) m"
  have "0 \<le> \<bar>x\<bar> * 100 + 1 / 2"
    by simp
  then have n0: "0 \<le> n"
    unfolding n_def by (simp only: zero_le_floor)
  have m0: "m0 \<noteq> []" "list_all is_digit m0" "digits_value m0 = n"
    using digits_props [OF n0] by (simp_all add: m0_def)
  have zero: "is_digit CHR ''0''"
    by (simp add: is_digit_def)
  have m_len: "3 \<le> length m"
    using m0(1) by (auto simp: m_def)
  have m_digits: "list_all is_digit m"
    using m0(2) zero by (auto simp: m_def list_all_iff)
  have m_value: "digits_value m = n"
    using m0(3) by (simp add: m_def digits_value_append digits_value_zeros)
  have ab: "a @ b = m"
    by (simp add: a_def b_def)
  have a: "a \<noteq> []" "list_all is_digit a"
    using m_len m_digits by (auto simp: a_def list_all_iff dest: in_set_takeD)
  have b: "list_all is_digit b" "length b = 2"
    using m_len m_digits by (auto simp: b_def list_all_iff dest: in_set_dropD)
  have "digits_value a * 100 + digits_value b = n"
    using digits_value_append [of a b] b(2) by (simp add: ab m_value)
  then have "(of_int (digits_value a) * 100 + of_int (digits_value b) :: rat) = of_int n"
    by (metis of_int_add of_int_mult of_int_numeral)
  then have v: "(of_int (digits_value a) + of_int (digits_value b) / 100 :: rat) = of_int n / 100"
    by (simp add: field_simps)
  have tf: "toFixed 2 (Fin x) = (if x < 0 then ''-'' else []) @ a @ CHR ''.'' # b"
    by (simp only: toFixed_2_unfold [OF assms] Let_def n_def [symmetric] m0_def [symmetric]
        m_def [symmetric] a_def [symmetric] b_def [symmetric])
  show "two_decimal_places (toFixed 2 (Fin x))"
    using fixed_notation(1,2) [OF a b] by (simp add: tf)
  show "decimal_value (toFixed 2 (Fin x)) = round2 x"
    using fixed_notation(3,4) [OF a b] v by (simp add: tf round2_def n_def)
qed

subsection \<open>Inventory report\<close>

text \<open>
  C3, as the page has it. The inventory report has one row per product, in the collection's
  order, and every row's Total Value is \<open>toFixed 2\<close> of the double product
  \<open>quantity * unitCost\<close>. Where that product is finite and below \<open>10^21\<close> in magnitude, the
  string has exactly two decimal places and reads as the double product rounded to
  hundredths.
\<close>

theorem inventoryReport_rows:
  "inventoryReport ps = map inventoryRow ps
   \<and> length (inventoryReport ps) = length ps
   \<and> get (inventoryRow p) ''Total Value'' = Str (toFixed 2 (quantity p * unitCost p))
   \<and> (quantity p * unitCost p = Fin v \<and> \<bar>v\<bar> < 10 ^ 21 \<longrightarrow>
        two_decimal_places (toFixed 2 (quantity p * unitCost p))
        \<and> decimal_value (toFixed 2 (quantity p * unitCost p)) = round2 v)"
proof -
  have "get (inventoryRow p) ''Total Value'' = Str (toFixed 2 (quantity p * unitCost p))"
    by (simp add: inventoryRow_def get_def)
  then show ?thesis
    using toFixed_2_fixed [of v] by (simp add: inventoryReport_def)
qed

theorem inventoryReport_rows_witness:
  "quantity widget * unitCost widget = Fin 50
   \<and> \<bar>50 :: rat\<bar> < 10 ^ 21
   \<and> inventoryReport [widget, discontinued] = [inventoryRow widget, inventoryRow discontinued]
   \<and> get (inventoryRow widget) ''Total Value'' = Str ''50.00''
   \<and> two_decimal_places (toFixed 2 (quantity widget * unitCost widget))
   \<and> decimal_value (toFixed 2 (quantity widget * unitCost widget)) = 50"
proof -
  have h: "quantity widget * unitCost widget = Fin 50" "\<bar>50 :: rat\<bar> < 10 ^ 21"
    by code_simp+
  have v: "toFixed 2 (quantity widget * unitCost widget) = ''50.00''"
    by code_simp
  have r: "round2 50 = 50"
    by code_simp
  from inventoryReport_rows [of "[widget, discontinued]" widget 50] h v r show ?thesis
    by simp
qed

lemma rounded_product:
  "toFixed 2 (Fin 94906267 * Fin 94906267) = ''9007199515875288.00''
   \<and> toFixed 2 (Fin 3 * Fin 333333333333333311488) = ''1e+21''"
  by code_simp

text \<open>
  Against C3 as stated: for a quantity of \<open>10^21\<close> (a double, as \<open>5^21 < 2^53\<close>) at unit
  cost 1 the product reaches the magnitude at which \<open>toFixed\<close> answers in exponent notation,
  and the Total Value has no decimal places at all.
\<close>

theorem huge_total_value_counterexample:
  "quantity bulk = Fin (10 ^ 21)
   \<and> unitCost bulk = Fin 1
   \<and> get (inventoryReport [bulk] ! 0) ''Total Value'' = Str ''1e+21''
   \<and> \<not> two_decimal_places ''1e+21''"
  by code_simp

subsection \<open>Valuation report\<close>

text \<open>
  C2, as the page has it. The valuation report is one valuation row per product followed by
  the TOTAL row. That row carries the label TOTAL under SKU and leaves Name, Category and
  Unit Cost blank. Its Stock Value is \<open>toFixed 2\<close> of the running double sum, from the left
  and starting at 0, of the double products \<open>quantity * unitCost\<close> (the sum is formatted
  once; the other rows show each product formatted on its own), its Potential Revenue is
  \<open>toFixed 2\<close> of the like sum of \<open>quantity * sellingPrice\<close>, and its Potential Profit is
  \<open>toFixed 2\<close> of the double difference of the second sum and the first.
\<close>

theorem valuationReport_rows:
  "length (valuationReport ps) = length ps + 1
   \<and> butlast (valuationReport ps) = map valuationRow ps
   \<and> last (valuationReport ps) = totalRow ps
   \<and> get (totalRow ps) ''SKU'' = Str ''TOTAL''
   \<and> get (totalRow ps) ''Name'' = Str []
   \<and> get (totalRow ps) ''Category'' = Str []
   \<and> get (totalRow ps) ''Unit Cost'' = Str []
   \<and> get (valuationRow p) ''Stock Value'' = Str (toFixed 2 (quantity p * unitCost p))
   \<and> get (totalRow ps) ''Stock Value'' =
       Str (toFixed 2 (foldl (\<lambda>sum p. sum + quantity p * unitCost p) 0 ps))
   \<and> get (totalRow ps) ''Potential Revenue'' =
       Str (toFixed 2 (foldl (\<lambda>sum p. sum + quantity p * sellingPrice p) 0 ps))
   \<and> get (totalRow ps) ''Potential Profit'' =
       Str (toFixed 2 (foldl (\<lambda>sum p. sum + quantity p * sellingPrice p) 0 ps
                        - foldl (\<lambda>sum p. sum + quantity p * unitCost p) 0 ps))"
proof -
  have totals: "get (totalRow ps) ''Stock Value'' =
       Str (toFixed 2 (foldl (\<lambda>sum p. sum + quantity p * unitCost p) 0 ps))"
    "get (totalRow ps) ''Potential Revenue'' =
       Str (toFixed 2 (foldl (\<lambda>sum p. sum + quantity p * sellingPrice p) 0 ps))"
    "get (totalRow ps) ''Potential Profit'' =
       Str (toFixed 2 (foldl (\<lambda>sum p. sum + quantity p * sellingPrice p) 0 ps
                        - foldl (\<lambda>sum p. sum + quantity p * unitCost p) 0 ps))"
    by (simp_all add: totalRow_def totalLiteral_def get_def totalProfit_def totalValue_def
        totalRevenue_def)
  have blanks: "get (totalRow ps) ''SKU'' = Str ''TOTAL''" "get (totalRow ps) ''Name'' = Str []"
    "get (totalRow ps) ''Category'' = Str []" "get (totalRow ps) ''Unit Cost'' = Str []"
    by (simp_all add: totalRow_def totalLiteral_def get_def)
  have row: "get (valuationRow p) ''Stock Value'' = Str (toFixed 2 (quantity p * unitCost p))"
    by (simp add: valuationRow_def get_def)
  have shape: "length (valuationReport ps) = length ps + 1"
    "butlast (valuationReport ps) = map valuationRow ps"
    "last (valuationReport ps) = totalRow ps"
    by (simp_all add: valuationReport_def)
  from shape blanks row totals show ?thesis
    by (intro conjI)
qed

lemma rounded_sum:
  "toFixed 2 (0 + Fin (2 ^ 53) * Fin 1 + Fin 1 * Fin 1 + Fin 1 * Fin 1) = ''9007199254740992.00''"
  by code_simp

text \<open>
  Against C2 as stated: with two products of quantity 1, unit cost 0.09375 and selling price
  0.171875 (all doubles, and every sum and product of them here is exact), the SKU of the
  TOTAL row is not blank; the rows show a Stock Value of 0.09 each and the TOTAL row shows
  0.19, not 0.18; and the TOTAL row's Potential Profit is 0.16, while its Potential Revenue
  minus its Stock Value is 0.34 - 0.19 = 0.15.
\<close>

theorem valuation_total_counterexample:
  "get (last (valuationReport [sachetA, sachetB])) ''SKU'' \<noteq> Str []
   \<and> get (valuationReport [sachetA, sachetB] ! 0) ''Stock Value'' = Str ''0.09''
   \<and> get (valuationReport [sachetA, sachetB] ! 1) ''Stock Value'' = Str ''0.09''
   \<and> get (valuationReport [sachetA, sachetB] ! 2) ''Stock Value'' = Str ''0.19''
   \<and> decimal_value ''0.09'' + decimal_value ''0.09'' \<noteq> decimal_value ''0.19''
   \<and> get (valuationReport [sachetA, sachetB] ! 2) ''Potential Revenue'' = Str ''0.34''
   \<and> get (valuationReport [sachetA, sachetB] ! 2) ''Potential Profit'' = Str ''0.16''
   \<and> decimal_value ''0.34'' - decimal_value ''0.19'' \<noteq> decimal_value ''0.16''"
  by code_simp

subsection \<open>Splitting text and collecting files\<close>

lemma split_on_append_sep:
  "c \<notin> set d \<Longrightarrow> split_on (d @ c # t) c = d # split_on t c"
  by (induction d) auto

lemma split_on_no_sep: "c \<notin> set d \<Longrightarrow> split_on d c = [d]"
  by (induction d) auto




subsection \<open>CSV text and its round trip\<close>

lemma split_on_intercalate:
  "xs \<noteq> [] \<Longrightarrow> \<forall>x\<in>set xs. c \<notin> set x \<Longrightarrow> split_on (intercalate [c] xs) c = xs"
proof (induction "[c]" xs rule: intercalate.induct)
  case 1
  then show ?case by simp
next
  case (2 x)
  then show ?case by (simp add: split_on_no_sep)
next
  case (3 x y ys)
  then show ?case by (simp add: split_on_append_sep)
qed

lemma notin_intercalate:
  "c \<notin> set sep \<Longrightarrow> \<forall>x\<in>set xs. c \<notin> set x \<Longrightarrow> c \<notin> set (intercalate sep xs)"
  by (induction sep xs rule: intercalate.induct) auto

lemma plain_row_iff:
  "plain_row r \<longleftrightarrow> (\<forall>kv\<in>set r. plain (fst kv) \<and> plain (element_text (snd kv)))"
  by (induction r rule: plain_row.induct) auto

lemma element_text_Str [simp]: "element_text (Str s) = s"
  by (simp add: element_text_def ToString_def)

lemma csvContent_lines:
  "csvContent data =
     intercalate [CHR 0x0A]
       (intercalate '','' (keys (data ! 0)) #
        map (\<lambda>r. intercalate '','' (map (\<lambda>h. element_text (get r h)) (keys (data ! 0)))) data)"
  by (simp add: csvContent_def join_def Let_def comp_def)

lemma get_member:
  assumes "distinct (keys r)" and "kv \<in> set r"
  shows "get r (fst kv) = snd kv"
proof -
  from assms have "map_of r (fst kv) = Some (snd kv)"
    by (intro map_of_is_SomeI) (simp_all add: keys_def)
  then show ?thesis
    by (simp add: get_def)
qed

lemma get_of_key:
  assumes "distinct (keys r)" and "h \<in> set (keys r)"
  shows "\<exists>kv\<in>set r. fst kv = h \<and> get r h = snd kv"
proof -
  from assms(2) obtain kv where kv: "kv \<in> set r" "fst kv = h"
    by (auto simp: keys_def)
  with get_member [OF assms(1) kv(1)] show ?thesis
    by auto
qed

text \<open>The rows that the four builders hand to the serializer are uniform.\<close>

lemma builders_uniform:
  "uniform (inventoryReport ps) \<and> uniform (lowStockReport ps)
   \<and> uniform (transactionReport e txs) \<and> uniform (valuationReport ps)"
proof -
  have inv: "keys r = keys (inventoryRow undefined)" if "r \<in> set (inventoryReport ps)" for r
    using that by (auto simp: inventoryReport_def inventoryRow_def keys_def)
  have low: "keys r = keys (lowStockRow undefined)" if "r \<in> set (lowStockReport ps)" for r
    using that by (auto simp: lowStockReport_def lowStockRow_def keys_def)
  have tra: "keys r = keys (transactionRow e undefined)" if "r \<in> set (transactionReport e txs)" for r
    using that by (auto simp: transactionReport_def transactionRow_def keys_def)
  have val: "keys r = keys (totalRow [])" if "r \<in> set (valuationReport ps)" for r
    using that
    by (auto simp: valuationReport_def valuationRow_def totalRow_def totalLiteral_def keys_def)
  have same: "uniform data"
    if all: "\<And>r. r \<in> set data \<Longrightarrow> keys r = ks" and ks: "ks \<noteq> []" "distinct ks"
    for data :: "row list" and ks
  proof (cases data)
    case Nil
    then show ?thesis
      by (simp add: uniform_def)
  next
    case (Cons r0 rest)
    then have "keys (data ! 0) = ks"
      using all [of r0] by simp
    with all ks show ?thesis
      by (simp add: uniform_def list_all_iff)
  qed
  have "uniform (inventoryReport ps)"
    by (rule same [OF inv]) (simp_all add: inventoryRow_def keys_def)
  moreover have "uniform (lowStockReport ps)"
    by (rule same [OF low]) (simp_all add: lowStockRow_def keys_def)
  moreover have "uniform (transactionReport e txs)"
    by (rule same [OF tra]) (simp_all add: transactionRow_def keys_def)
  moreover have "uniform (valuationReport ps)"
    by (rule same [OF val]) (simp_all add: totalRow_def totalLiteral_def keys_def)
  ultimately show ?thesis
    by blast
qed

text \<open>
  C5. Take a non-empty sequence of uniform rows whose keys and values contain no comma and
  no newline. Then the lines of the CSV text are the first row's keys joined by commas,
  followed by one line per row with that row's values under those keys, in that order,
  joined by commas; splitting the text on newlines and then on commas gives back the keys
  and, row by row, the values; and every value of every row is among them, under its key.
\<close>

theorem csv_round_trip:
  assumes "data \<noteq> []"
    and "uniform data"
    and "\<forall>r\<in>set data. plain_row r"
  shows "split_on (csvContent data) CHR 0x0A =
           intercalate '','' (keys (data ! 0)) #
           map (\<lambda>r. intercalate '','' (map (\<lambda>h. element_text (get r h)) (keys (data ! 0)))) data
       \<and> parse_csv (csvContent data) = table data
       \<and> (\<forall>r\<in>set data. \<forall>kv\<in>set r.
             fst kv \<in> set (keys (data ! 0)) \<and> get r (fst kv) = snd kv)"
proof -
  let ?hs = "keys (data ! 0)"
  let ?cells = "\<lambda>r. map (\<lambda>h. element_text (get r h)) ?hs"
  let ?line = "\<lambda>r. intercalate '','' (?cells r)"
  have head: "data ! 0 \<in> set data"
    using assms(1) by simp
  have u: "keys r \<noteq> []" "distinct (keys r)" "set (keys r) = set ?hs" if "r \<in> set data" for r
    using that assms(2) by (simp_all add: uniform_def list_all_iff)
  have hs: "?hs \<noteq> []"
    using u(1) [OF head] .
  have plain_rows: "plain_row r" if "r \<in> set data" for r
    using that assms(3) by blast
  have "\<forall>kv\<in>set (data ! 0). plain (fst kv)"
    using plain_rows [OF head] by (simp only: plain_row_iff) blast
  then have plain_keys: "\<forall>h\<in>set ?hs. plain h"
    by (simp add: keys_def)
  have plain_cells: "\<forall>x\<in>set (?cells r). plain x" if r: "r \<in> set data" for r
  proof
    fix x
    assume "x \<in> set (?cells r)"
    then obtain h where h: "h \<in> set ?hs" and x: "x = element_text (get r h)"
      by auto
    from h u(3) [OF r] have "h \<in> set (keys r)"
      by simp
    from get_of_key [OF u(2) [OF r] this] obtain kv where "kv \<in> set r" "get r h = snd kv"
      by blast
    with plain_rows [OF r] show "plain x"
      by (auto simp: x plain_row_iff)
  qed
  have comma_newline: "CHR 0x0A \<notin> set '',''"
    by simp
  have "CHR 0x0A \<notin> set (intercalate '','' ?hs)"
    using plain_keys by (intro notin_intercalate [OF comma_newline]) (simp add: plain_def)
  moreover have "CHR 0x0A \<notin> set (?line r)" if "r \<in> set data" for r
    using plain_cells [OF that]
    by (intro notin_intercalate [OF comma_newline]) (simp add: plain_def)
  ultimately have no_newline:
    "\<forall>l\<in>set (intercalate '','' ?hs # map ?line data). CHR 0x0A \<notin> set l"
    by auto
  have "split_on (intercalate [CHR 0x0A] (intercalate '','' ?hs # map ?line data)) CHR 0x0A =
      intercalate '','' ?hs # map ?line data"
    using no_newline by (intro split_on_intercalate) simp_all
  then have split_lines:
    "split_on (csvContent data) CHR 0x0A = intercalate '','' ?hs # map ?line data"
    by (simp only: csvContent_lines)
  have header: "split_on (intercalate '','' ?hs) CHR '','' = ?hs"
    using hs plain_keys by (intro split_on_intercalate) (simp_all add: plain_def)
  have body: "split_on (?line r) CHR '','' = ?cells r" if "r \<in> set data" for r
  proof -
    have "?cells r \<noteq> []"
      using hs by simp
    then show ?thesis
      using plain_cells [OF that] by (intro split_on_intercalate) (simp_all add: plain_def)
  qed
  have "map (\<lambda>l. split_on l CHR '','') (map ?line data) = map ?cells data"
    using body by simp
  then have parsed: "parse_csv (csvContent data) = table data"
    using header by (simp add: parse_csv_def split_lines table_def)
  have all_values: "fst kv \<in> set ?hs \<and> get r (fst kv) = snd kv"
    if "r \<in> set data" "kv \<in> set r" for r kv
    using that u(3) [OF that(1)] get_member [OF u(2) [OF that(1)] that(2)]
    by (auto simp: keys_def)
  from split_lines parsed all_values show ?thesis
    by blast
qed

theorem csv_round_trip_witness:
  "valuationReport [widget] \<noteq> []
   \<and> uniform (valuationReport [widget])
   \<and> parse_csv (csvContent (valuationReport [widget])) =
       [[''SKU'', ''Name'', ''Category'', ''Quantity'', ''Unit Cost'', ''Stock Value'',
         ''Potential Revenue'', ''Potential Profit''],
        [''A1'', ''Widget'', ''Parts'', ''5'', ''10.00'', ''50.00'', ''75.00'', ''25.00''],
        [''TOTAL'', [], [], ''0'', [], ''50.00'', ''75.00'', ''25.00'']]
   \<and> parse_csv (csvContent (valuationReport [widget])) = table (valuationReport [widget])"
proof -
  have h1: "valuationReport [widget] \<noteq> []"
    by code_simp
  have h2: "uniform (valuationReport [widget])"
    by code_simp
  have h3: "\<forall>r\<in>set (valuationReport [widget]). plain_row r"
    by code_simp
  have t: "table (valuationReport [widget]) =
       [[''SKU'', ''Name'', ''Category'', ''Quantity'', ''Unit Cost'', ''Stock Value'',
         ''Potential Revenue'', ''Potential Profit''],
        [''A1'', ''Widget'', ''Parts'', ''5'', ''10.00'', ''50.00'', ''75.00'', ''25.00''],
        [''TOTAL'', [], [], ''0'', [], ''50.00'', ''75.00'', ''25.00'']]"
    by code_simp
  from csv_round_trip [OF h1 h2 h3] h1 h2 t show ?thesis
    by simp
qed

subsection \<open>File names\<close>














end
